theory Spec2Isabelle
  imports Main "HOL-Library.AList" "HOL-Library.Sublist" "HOL-Library.Char_ord"
    "HOL-Library.List_Lexorder"
begin

section \<open>Python strings\<close>

text \<open>
  Python \<^verbatim>\<open>str\<close> values are modelled as \<^typ>\<open>string\<close>.  The three tests the client uses
  (\<^verbatim>\<open>s.startswith(p)\<close>, \<^verbatim>\<open>s.endswith(p)\<close>, \<^verbatim>\<open>p in s\<close>) are written as recursive
  functions and related to the prefix, suffix and contiguous-sublist orders below.
\<close>

fun startswith :: "string \<Rightarrow> string \<Rightarrow> bool" where
  "startswith s [] = True"
| "startswith [] (p # ps) = False"
| "startswith (c # cs) (p # ps) = (c = p \<and> startswith cs ps)"

definition endswith :: "string \<Rightarrow> string \<Rightarrow> bool" where
  "endswith s p = startswith (rev s) (rev p)"

fun contains :: "string \<Rightarrow> string \<Rightarrow> bool" where
  "contains [] p = (p = [])"
| "contains (c # cs) p = (startswith (c # cs) p \<or> contains cs p)"

text \<open>\<^verbatim>\<open>s.split(sep)\<close> for a one-character separator: never empty, one more piece than
  there are separators.\<close>

fun str_split :: "char \<Rightarrow> string \<Rightarrow> string list" where
  "str_split sep [] = [[]]"
| "str_split sep (c # cs) =
     (if c = sep then [] # str_split sep cs
      else (case str_split sep cs of
              [] \<Rightarrow> [[c]]
            | w # ws \<Rightarrow> (c # w) # ws))"

text \<open>\<^verbatim>\<open>s.strip("\n")\<close>: line feeds are removed at both ends.\<close>

definition newline :: char where
  "newline = CHR 0x0A"

definition strip_newlines :: "string \<Rightarrow> string" where
  "strip_newlines s =
     rev (dropWhile (\<lambda>c. c = newline) (rev (dropWhile (\<lambda>c. c = newline) s)))"

text \<open>\<^verbatim>\<open>str(n)\<close> for an integer: decimal digits, a minus sign for negative numbers.\<close>

definition digit_char :: "nat \<Rightarrow> char" where
  "digit_char d = ''0123456789'' ! (d mod 10)"

fun str_nat :: "nat \<Rightarrow> string" where
  "str_nat n = (if n < 10 then [digit_char n] else str_nat (n div 10) @ [digit_char (n mod 10)])"

definition str_int :: "int \<Rightarrow> string" where
  "str_int i = (if i < 0 then CHR ''-'' # str_nat (nat (- i)) else str_nat (nat i))"

section \<open>Errors\<close>

text \<open>Every exception the client raises or lets through is a value of this type.\<close>

datatype error =
    BadUsername string
  | ExternalUserCommitError string string
  | MetadataNotFoundError
  | ValueError string
  | IndexError
  | KeyError string
  | StopIteration
  | GitCommandError
  | NoSuchPathError
  | BadName
  | AssertionError
  | LockTimeout string
  | Exception' string

section \<open>Constants of the module\<close>

definition BINSYNC_BRANCH_PREFIX :: string where
  "BINSYNC_BRANCH_PREFIX = ''binsync''"

definition BINSYNC_ROOT_BRANCH :: string where
  "BINSYNC_ROOT_BRANCH = BINSYNC_BRANCH_PREFIX @ ''/__root__''"

datatype ConnectionWarnings = HASH_MISMATCH

section \<open>The authentication environment\<close>

text \<open>\<^verbatim>\<open>Client.ssh_agent_env\<close>.  The dictionary is an association list in insertion order.\<close>

definition ssh_agent_env :: "int option \<Rightarrow> string option \<Rightarrow> (string \<times> string) list" where
  "ssh_agent_env ssh_agent_pid ssh_auth_sock =
     (case ssh_agent_pid of
        None \<Rightarrow> []
      | Some pid \<Rightarrow>
          (case ssh_auth_sock of
             None \<Rightarrow> []
           | Some sock \<Rightarrow> [(''SSH_AGENT_PID'', str_int pid), (''SSH_AUTH_SOCK'', sock)]))"

section \<open>The username check of the constructor\<close>

definition bad_username :: "string \<Rightarrow> bool" where
  "bad_username master_user = (endswith master_user ''/'' \<or> contains master_user ''__root__'')"

definition check_username :: "string \<Rightarrow> error + unit" where
  "check_username master_user =
     (if bad_username master_user then Inl (BadUsername master_user) else Inr ())"

section \<open>Deriving the repository root from the remote URL\<close>

text \<open>
  \<^verbatim>\<open>re.findall(r"/(.*)\.git", remote_url)[0]\<close>.  The pattern is matched at the leftmost
  position where it can match at all; there the group \<^verbatim>\<open>(.*)\<close> is greedy, so it runs
  to the last \<^verbatim>\<open>.git\<close> that a run without line feeds reaches.  \<open>dotstar_git s\<close> is the
  group when the pattern is tried right after a slash, with \<open>s\<close> the text that follows
  the slash.
\<close>

fun dotstar_git :: "string \<Rightarrow> string option" where
  "dotstar_git [] = None"
| "dotstar_git (c # cs) =
     (case (if c = newline then None else dotstar_git cs) of
        Some g \<Rightarrow> Some (c # g)
      | None \<Rightarrow> if startswith (c # cs) ''.git'' then Some [] else None)"

fun re_search_slash_git :: "string \<Rightarrow> string option" where
  "re_search_slash_git [] = None"
| "re_search_slash_git (c # cs) =
     (if c = CHR ''/'' then
        (case dotstar_git cs of
           Some g \<Rightarrow> Some g
         | None \<Rightarrow> re_search_slash_git cs)
      else re_search_slash_git cs)"

definition derive_repo_root :: "string \<Rightarrow> error + string" where
  "derive_repo_root remote_url =
     (case re_search_slash_git remote_url of
        None \<Rightarrow> Inl IndexError
      | Some g \<Rightarrow> Inr g)"

section \<open>References and commits\<close>

text \<open>
  A commit is identified by its content, as in a content-addressed store: its tree (path
  to blob text), the authored date, the message and the parents.  A reference has a
  short name (\<^verbatim>\<open>binsync/alice\<close> for a head, \<^verbatim>\<open>origin/binsync/alice\<close> for a remote-tracking
  reference), a kind and the commit it points to.
\<close>

type_synonym tree = "(string \<times> string) list"

datatype commit =
  Commit (tree: tree) (authored_date: int) (message: string) (parents: "commit list")

datatype ref_kind = Head | RemoteRef string | TagRef

record git_ref =
  name :: string
  kind :: ref_kind
  commit :: commit

definition is_remote :: "git_ref \<Rightarrow> bool" where
  "is_remote r = (case kind r of RemoteRef n \<Rightarrow> True | _ \<Rightarrow> False)"

text \<open>\<^verbatim>\<open>not ref.is_remote() or ref.remote_name != self.remote\<close>; the remote name is only
  read on a remote reference.\<close>

definition not_of_remote :: "string \<Rightarrow> git_ref \<Rightarrow> bool" where
  "not_of_remote remote r = (case kind r of RemoteRef n \<Rightarrow> n \<noteq> remote | _ \<Rightarrow> True)"

definition in_binsync_namespace :: "git_ref \<Rightarrow> bool" where
  "in_binsync_namespace r = contains (name r) (BINSYNC_BRANCH_PREFIX @ ''/'')"

definition branch_name :: "git_ref \<Rightarrow> string" where
  "branch_name r = last (str_split CHR ''/'' (name r))"

section \<open>Best-ref selection\<close>

text \<open>\<^verbatim>\<open>Client._get_best_refs\<close>: the loop over \<^verbatim>\<open>repo.refs\<close>, with the dictionary
  \<^verbatim>\<open>candidates\<close> as the accumulator.\<close>

fun best_refs_loop :: "string \<Rightarrow> git_ref list \<Rightarrow> (string \<times> git_ref) list \<Rightarrow> (string \<times> git_ref) list" where
  "best_refs_loop remote [] candidates = candidates"
| "best_refs_loop remote (r # rs) candidates =
     (if \<not> in_binsync_namespace r then best_refs_loop remote rs candidates
      else if map_of candidates (branch_name r) \<noteq> None \<and> not_of_remote remote r
           then best_refs_loop remote rs candidates
      else best_refs_loop remote rs (AList.update (branch_name r) r candidates))"

definition get_best_refs :: "string \<Rightarrow> git_ref list \<Rightarrow> (string \<times> git_ref) list" where
  "get_best_refs remote rfs = best_refs_loop remote rfs []"

section \<open>The repository\<close>

text \<open>
  The version-control library is outside the client.  Its objects are modelled by what
  the client reads and writes of them: the references in the order \<^verbatim>\<open>repo.refs\<close>
  enumerates them (sorted by full path), the checked-out branch, the index, the working
  tree, the bare flag and the names of the configured remotes.  A checkout is taken to
  succeed whenever the branch exists; uncommitted changes never block it.
\<close>

record repo =
  refs :: "git_ref list"
  HEAD :: string
  index :: tree
  working_tree :: tree
  bare :: bool
  remotes :: "string list"

definition ref_path :: "git_ref \<Rightarrow> string" where
  "ref_path r =
     (case kind r of
        Head \<Rightarrow> ''refs/heads/''
      | RemoteRef n \<Rightarrow> ''refs/remotes/''
      | TagRef \<Rightarrow> ''refs/tags/'') @ name r"

definition add_ref :: "git_ref \<Rightarrow> repo \<Rightarrow> repo" where
  "add_ref r rp = rp\<lparr>refs := insort_key ref_path r (refs rp)\<rparr>"

text \<open>\<^verbatim>\<open>repo.branches\<close>: the local heads only.\<close>

definition branches :: "repo \<Rightarrow> git_ref list" where
  "branches rp = filter (\<lambda>r. kind r = Head) (refs rp)"

definition find_head :: "string \<Rightarrow> repo \<Rightarrow> git_ref option" where
  "find_head nm rp = find (\<lambda>r. kind r = Head \<and> name r = nm) (refs rp)"

definition head_commit :: "repo \<Rightarrow> commit option" where
  "head_commit rp = map_option commit (find_head (HEAD rp) rp)"

text \<open>Resolving a revision name: \<^verbatim>\<open>HEAD\<close>, else a tag, else a head, else a
  remote-tracking reference of that name.\<close>

definition rev_parse :: "string \<Rightarrow> repo \<Rightarrow> commit option" where
  "rev_parse nm rp =
     (if nm = ''HEAD'' then head_commit rp
      else (case find (\<lambda>r. kind r = TagRef \<and> name r = nm) (refs rp) of
              Some r \<Rightarrow> Some (commit r)
            | None \<Rightarrow>
                (case find_head nm rp of
                   Some r \<Rightarrow> Some (commit r)
                 | None \<Rightarrow> map_option commit (find (\<lambda>r. is_remote r \<and> name r = nm) (refs rp)))))"

text \<open>\<^verbatim>\<open>repo.create_head(name, start)\<close>: \<^verbatim>\<open>BadName\<close> when the start point does not
  resolve, an error when a head of that name already points elsewhere.\<close>

definition create_head :: "repo \<Rightarrow> string \<Rightarrow> string \<Rightarrow> error + repo" where
  "create_head rp nm start =
     (case rev_parse start rp of
        None \<Rightarrow> Inl BadName
      | Some c \<Rightarrow>
          (case find_head nm rp of
             None \<Rightarrow> Inr (add_ref \<lparr>name = nm, kind = Head, commit = c\<rparr> rp)
           | Some r \<Rightarrow> if commit r = c then Inr rp else Inl (Exception' ''OSError'')))"

text \<open>\<^verbatim>\<open>git checkout <branch>\<close> and \<^verbatim>\<open>branch.checkout()\<close>.\<close>

definition checkout :: "repo \<Rightarrow> string \<Rightarrow> error + repo" where
  "checkout rp nm =
     (case find_head nm rp of
        None \<Rightarrow> Inl GitCommandError
      | Some r \<Rightarrow>
          Inr (if HEAD rp = nm then rp
               else rp\<lparr>HEAD := nm, index := tree (commit r), working_tree := tree (commit r)\<rparr>))"

text \<open>\<^verbatim>\<open>git checkout --track <remote>/<branch>\<close>: a new local head named after the
  remote branch, checked out; it fails when that head exists.\<close>

definition checkout_track :: "repo \<Rightarrow> git_ref \<Rightarrow> error + repo" where
  "checkout_track rp r =
     (case kind r of
        RemoteRef n \<Rightarrow>
          (let local_name = drop (length n + 1) (name r) in
           case find_head local_name rp of
             Some h \<Rightarrow> Inl GitCommandError
           | None \<Rightarrow>
               Inr ((add_ref \<lparr>name = local_name, kind = Head, commit = commit r\<rparr> rp)
                      \<lparr>HEAD := local_name, index := tree (commit r),
                       working_tree := tree (commit r)\<rparr>))
      | _ \<Rightarrow> Inl GitCommandError)"

text \<open>\<^verbatim>\<open>index.diff("HEAD")\<close>: the paths at which the index and the tree of the
  checked-out commit differ.\<close>

definition index_diff_HEAD :: "repo \<Rightarrow> error + string list" where
  "index_diff_HEAD rp =
     (case head_commit rp of
        None \<Rightarrow> Inl BadName
      | Some c \<Rightarrow>
          Inr (filter (\<lambda>p. map_of (index rp) p \<noteq> map_of (tree c) p)
                 (remdups (map fst (index rp) @ map fst (tree c)))))"

text \<open>\<^verbatim>\<open>index.commit(msg)\<close>: a commit of the index on top of the checked-out commit;
  the checked-out branch advances to it (and is created when it has no commit yet).\<close>

definition index_commit :: "int \<Rightarrow> string \<Rightarrow> repo \<Rightarrow> commit \<times> repo" where
  "index_commit now msg rp =
     (let c = Commit (index rp) now msg (case head_commit rp of None \<Rightarrow> [] | Some p \<Rightarrow> [p]) in
      (c, case find_head (HEAD rp) rp of
            None \<Rightarrow> add_ref \<lparr>name = HEAD rp, kind = Head, commit = c\<rparr> rp
          | Some h \<Rightarrow>
              rp\<lparr>refs := map (\<lambda>r. if kind r = Head \<and> name r = HEAD rp then r\<lparr>commit := c\<rparr> else r)
                                (refs rp)\<rparr>))"

text \<open>\<^verbatim>\<open>branch.commit = c\<close> on the head named \<open>nm\<close>.\<close>

definition set_head_commit :: "string \<Rightarrow> commit \<Rightarrow> repo \<Rightarrow> repo" where
  "set_head_commit nm c rp =
     rp\<lparr>refs := map (\<lambda>r. if kind r = Head \<and> name r = nm then r\<lparr>commit := c\<rparr> else r) (refs rp)\<rparr>"

text \<open>\<^verbatim>\<open>Client.add_data\<close>: the file is written into the working tree and staged.\<close>

definition add_data :: "string \<Rightarrow> string \<Rightarrow> repo \<Rightarrow> repo" where
  "add_data path data rp =
     rp\<lparr>working_tree := AList.update path data (working_tree rp),
        index := AList.update path data (index rp)\<rparr>"

text \<open>\<^verbatim>\<open>index.add([os.path.join(user, "*")])\<close>: every file of the working tree below
  \<^verbatim>\<open><user>/\<close> is staged.\<close>

definition index_add_user_glob :: "string \<Rightarrow> repo \<Rightarrow> repo" where
  "index_add_user_glob u rp =
     rp\<lparr>index := fold (\<lambda>(p, d) idx. if startswith p (u @ ''/'') then AList.update p d idx else idx)
                      (working_tree rp) (index rp)\<rparr>"

section \<open>The state module\<close>

text \<open>
  Modelled from the spec: the state module (\<^verbatim>\<open>binsync.data.state\<close>) is not part of the
  sources.  A State is an opaque per-user snapshot with a \<^verbatim>\<open>user\<close>, a \<^verbatim>\<open>dirty\<close> flag and
  the files its \<^verbatim>\<open>dump\<close> writes; \<^verbatim>\<open>dump(index)\<close> writes them below \<^verbatim>\<open><user>/\<close> through
  \<^verbatim>\<open>Client.add_data\<close>.  \<^verbatim>\<open>State.parse\<close> and the constructor \<^verbatim>\<open>State(user)\<close> are
  parameters of the operations that call them.
\<close>

record state =
  user :: string
  dirty :: bool
  files :: tree

definition State_dump :: "state \<Rightarrow> repo \<Rightarrow> repo" where
  "State_dump s rp = fold (\<lambda>(p, d). add_data (user s @ ''/'' @ p) d) (files s) rp"

text \<open>Modelled from the spec: the user module is not part of the sources; a User carries
  at least the username.\<close>

datatype User = User (username: string)

section \<open>Cache and scheduler\<close>

text \<open>
  Modelled from the spec: the cache (\<^verbatim>\<open>binsync.core.cache\<close>) is not part of the sources.
  The state cache is keyed by user and version, the users cache holds one list.  A lookup
  that finds nothing, or finds a stored \<^verbatim>\<open>None\<close>, answers \<^verbatim>\<open>None\<close>.
\<close>

datatype retval = RNone | RState state | RUsers "User list" | RBool bool

record cache =
  state_cache :: "((string \<times> int option) \<times> state option) list"
  users_cache :: "User list option"

definition Cache :: cache where
  "Cache = \<lparr>state_cache = [], users_cache = None\<rparr>"

definition cache_get_state :: "cache \<Rightarrow> string \<Rightarrow> int option \<Rightarrow> retval option" where
  "cache_get_state ch u v =
     (case map_of (state_cache ch) (u, v) of
        Some (Some s) \<Rightarrow> Some (RState s)
      | _ \<Rightarrow> None)"

definition cache_set_state :: "cache \<Rightarrow> retval \<Rightarrow> string \<Rightarrow> int option \<Rightarrow> cache" where
  "cache_set_state ch ret u v =
     ch\<lparr>state_cache :=
          AList.update (u, v) (case ret of RState s \<Rightarrow> Some s | _ \<Rightarrow> None) (state_cache ch)\<rparr>"

definition cache_users :: "cache \<Rightarrow> retval option" where
  "cache_users ch = map_option RUsers (users_cache ch)"

definition cache_set_users :: "cache \<Rightarrow> retval \<Rightarrow> cache" where
  "cache_set_users ch ret = ch\<lparr>users_cache := (case ret of RUsers us \<Rightarrow> Some us | _ \<Rightarrow> None)\<rparr>"

text \<open>
  Modelled from the spec: the scheduler (\<^verbatim>\<open>binsync.core.scheduler\<close>) is not part of the
  sources.  \<^verbatim>\<open>schedule_and_wait_job\<close> enqueues a job, blocks the caller until the single
  worker has run it, and returns its value or re-raises its failure.  With one caller
  this is: run the job, remember that it was submitted.
\<close>

datatype SchedSpeed = FAST | AVERAGE | SLOW

datatype operation = OpCommitState | OpUsers | OpGetState | OpPull | OpPush | OpHasRemote

record scheduler =
  worker_started :: bool
  submitted :: "(operation \<times> SchedSpeed) list"

definition Scheduler :: scheduler where
  "Scheduler = \<lparr>worker_started = False, submitted = []\<rparr>"

section \<open>The client\<close>

record client =
  master_user :: string
  repo_root :: string
  binary_hash :: string
  remote :: string
  repo :: repo
  repo_lock :: "string option"
  ssh_agent_pid :: "int option"
  ssh_auth_sock :: "string option"
  connection_warnings :: "ConnectionWarnings list"
  cache :: cache
  scheduler :: scheduler
  commit_interval :: int
  last_push_ts :: "int option"
  last_push_attempt_ts :: "int option"
  last_pull_ts :: "int option"
  last_pull_attempt_ts :: "int option"
  last_commit_ts :: "int option"
  active_remote :: bool

definition user_branch_name_of :: "string \<Rightarrow> string" where
  "user_branch_name_of u = BINSYNC_BRANCH_PREFIX @ ''/'' @ u"

definition user_branch_name :: "client \<Rightarrow> string" where
  "user_branch_name self = user_branch_name_of (master_user self)"

definition note_submitted :: "operation \<Rightarrow> SchedSpeed \<Rightarrow> client \<Rightarrow> client" where
  "note_submitted f prio self =
     self\<lparr>scheduler := (scheduler self)\<lparr>submitted := submitted (scheduler self) @ [(f, prio)]\<rparr>\<rparr>"

definition schedule_and_wait_job ::
  "operation \<Rightarrow> SchedSpeed \<Rightarrow> (client \<Rightarrow> (error + retval) \<times> client) \<Rightarrow> client
     \<Rightarrow> (error + retval) \<times> client" where
  "schedule_and_wait_job f prio job self =
     (case job self of (r, self') \<Rightarrow> (r, note_submitted f prio self'))"

subsection \<open>Reading a user's tree and state\<close>

text \<open>\<^verbatim>\<open>max(options, key=...)\<close> keeps the first of several newest references.\<close>

fun newest_ref :: "git_ref \<Rightarrow> git_ref list \<Rightarrow> git_ref" where
  "newest_ref best [] = best"
| "newest_ref best (r # rs) =
     (if authored_date (commit best) < authored_date (commit r) then newest_ref r rs
      else newest_ref best rs)"

text \<open>\<^verbatim>\<open>Client._get_tree\<close>.\<close>

definition get_tree :: "string \<Rightarrow> repo \<Rightarrow> error + tree" where
  "get_tree u rp =
     (case filter (\<lambda>r. endswith (name r) (BINSYNC_BRANCH_PREFIX @ ''/'' @ u)) (refs rp) of
        [] \<Rightarrow> Inl (ValueError u)
      | r # rs \<Rightarrow> Inr (tree (commit (newest_ref r rs))))"

text \<open>
  \<^verbatim>\<open>Client.get_state\<close>, the body under the decorator.  \<open>parse\<close> is \<^verbatim>\<open>State.parse\<close> (tree
  and version to a State or a failure) and \<open>new_State\<close> the constructor \<^verbatim>\<open>State(user)\<close>.
  The \<^verbatim>\<open>except\<close> clause catches \<^verbatim>\<open>MetadataNotFoundError\<close> only; \<^verbatim>\<open>state\<close> starts as
  \<^verbatim>\<open>None\<close> and is returned as it stands.
\<close>

definition get_state ::
  "(tree \<Rightarrow> int option \<Rightarrow> error + state) \<Rightarrow> (string \<Rightarrow> state) \<Rightarrow> client
     \<Rightarrow> string option \<Rightarrow> int option \<Rightarrow> error + state option" where
  "get_state parse new_State self usr vers =
     (let u = (case usr of None \<Rightarrow> master_user self | Some x \<Rightarrow> x) in
      case get_tree u (repo self) of
        Inl e \<Rightarrow> (if e = MetadataNotFoundError
                  then (if u = master_user self then Inr (Some (new_State (master_user self)))
                        else Inr None)
                  else Inl e)
      | Inr t \<Rightarrow>
          (case parse t vers of
             Inl e \<Rightarrow> (if e = MetadataNotFoundError
                       then (if u = master_user self then Inr (Some (new_State (master_user self)))
                             else Inr None)
                       else Inl e)
           | Inr s \<Rightarrow> Inr (Some s)))"

text \<open>\<^verbatim>\<open>Client.users\<close>, the body under the decorator.  \<open>load_user\<close> stands for reading
  \<^verbatim>\<open>metadata.toml\<close> from a tree and building the User; a failure skips the reference.\<close>

definition users :: "(tree \<Rightarrow> error + User) \<Rightarrow> client \<Rightarrow> User list" where
  "users load_user self =
     concat (map (\<lambda>(b, r). case load_user (tree (commit r)) of Inl e \<Rightarrow> [] | Inr u \<Rightarrow> [u])
               (get_best_refs (remote self) (refs (repo self))))"

subsection \<open>Committing a state\<close>

text \<open>
  \<^verbatim>\<open>Client.commit_state\<close>, the body under the decorator.  The result is what the call
  returns or raises, the State (its dirty flag is cleared after a commit) and the client.
  \<open>now\<close> is the clock reading.  \<^verbatim>\<open>index.commit\<close> is total here, so the handler that
  logs an internal commit error and returns has no case of its own.
\<close>

definition commit_state ::
  "int \<Rightarrow> client \<Rightarrow> state \<Rightarrow> string \<Rightarrow> (error + unit) \<times> state \<times> client" where
  "commit_state now self s msg =
     (if master_user self \<noteq> user s
      then (Inl (ExternalUserCommitError (master_user self) (user s)), s, self)
      else
        (case checkout (repo self) (user_branch_name self) of
           Inl e \<Rightarrow> (Inl e, s, self)
         | Inr rp1 \<Rightarrow>
             (case find_head (user_branch_name self) rp1 of
                None \<Rightarrow> (Inl StopIteration, s, self\<lparr>repo := rp1\<rparr>)
              | Some master_user_branch \<Rightarrow>
                  (let rp2 = index_add_user_glob (user s) (State_dump s rp1) in
                   case index_diff_HEAD rp2 of
                     Inl e \<Rightarrow> (Inl e, s, self\<lparr>repo := rp2\<rparr>)
                   | Inr d \<Rightarrow>
                       if d = [] then (Inr (), s, self\<lparr>repo := rp2\<rparr>)
                       else
                         (case index_commit now msg rp2 of
                            (c, rp3) \<Rightarrow>
                              (Inr (), s\<lparr>dirty := False\<rparr>,
                               self\<lparr>repo := set_head_commit (user_branch_name self) c rp3,
                                    last_commit_ts := Some now\<rparr>))))))"

subsection \<open>The atomic wrapper\<close>

text \<open>The keyword arguments the wrapper and the cache look at.\<close>

record kwargs =
  kw_user :: "string option"
  kw_version :: "int option"
  kw_priority :: "SchedSpeed option"
  kw_no_cache :: bool

text \<open>\<^verbatim>\<open>Client._check_cache_\<close> and \<^verbatim>\<open>Client._set_cache\<close>: only \<^verbatim>\<open>get_state\<close> and \<^verbatim>\<open>users\<close>
  have a cache; the user defaults to the master user.\<close>

definition check_cache :: "client \<Rightarrow> operation \<Rightarrow> kwargs \<Rightarrow> retval option" where
  "check_cache self f kw =
     (if f = OpGetState then
        cache_get_state (cache self)
          (case kw_user kw of None \<Rightarrow> master_user self | Some u \<Rightarrow> u) (kw_version kw)
      else if f = OpUsers then cache_users (cache self)
      else None)"

definition set_cache :: "client \<Rightarrow> operation \<Rightarrow> retval \<Rightarrow> kwargs \<Rightarrow> client" where
  "set_cache self f ret_value kw =
     (if f = OpGetState then
        self\<lparr>cache := cache_set_state (cache self) ret_value
                        (case kw_user kw of None \<Rightarrow> master_user self | Some u \<Rightarrow> u) (kw_version kw)\<rparr>
      else if f = OpUsers then self\<lparr>cache := cache_set_users (cache self) ret_value\<rparr>
      else self)"

text \<open>\<^verbatim>\<open>atomic_git_action\<close>: \<open>f\<close> names the wrapped method and \<open>job\<close> is its body bound to
  its arguments.\<close>

definition atomic_git_action ::
  "operation \<Rightarrow> (client \<Rightarrow> (error + retval) \<times> client) \<Rightarrow> kwargs \<Rightarrow> client
     \<Rightarrow> (error + retval) \<times> client" where
  "atomic_git_action f job kw self =
     (case (if \<not> kw_no_cache kw then check_cache self f kw else None) of
        Some cache_item \<Rightarrow> (Inr cache_item, self)
      | None \<Rightarrow>
          (case schedule_and_wait_job f
                  (case kw_priority kw of None \<Rightarrow> SLOW | Some p \<Rightarrow> p) job self of
             (Inl e, self') \<Rightarrow> (Inl e, self')
           | (Inr ret_val, self') \<Rightarrow> (Inr ret_val, set_cache self' f ret_val kw)))"

text \<open>The two cached methods as the caller sees them.\<close>

definition get_state_atomic ::
  "(tree \<Rightarrow> int option \<Rightarrow> error + state) \<Rightarrow> (string \<Rightarrow> state) \<Rightarrow> kwargs \<Rightarrow> client
     \<Rightarrow> (error + retval) \<times> client" where
  "get_state_atomic parse new_State kw =
     atomic_git_action OpGetState
       (\<lambda>self. (case get_state parse new_State self (kw_user kw) (kw_version kw) of
                   Inl e \<Rightarrow> Inl e
                 | Inr None \<Rightarrow> Inr RNone
                 | Inr (Some s) \<Rightarrow> Inr (RState s), self)) kw"

definition commit_state_atomic ::
  "int \<Rightarrow> state \<Rightarrow> string \<Rightarrow> kwargs \<Rightarrow> client \<Rightarrow> (error + retval) \<times> client" where
  "commit_state_atomic now s msg kw =
     atomic_git_action OpCommitState
       (\<lambda>self. case commit_state now self s msg of
                  (r, s', self') \<Rightarrow> ((case r of Inl e \<Rightarrow> Inl e | Inr u \<Rightarrow> Inr RNone), self')) kw"

definition users_atomic :: "(tree \<Rightarrow> error + User) \<Rightarrow> kwargs \<Rightarrow> client \<Rightarrow> (error + retval) \<times> client" where
  "users_atomic load_user kw =
     atomic_git_action OpUsers (\<lambda>self. (Inr (RUsers (users load_user self)), self)) kw"

section \<open>Attaching to a repository\<close>

text \<open>
  What lies outside the process: the repositories on disk by path, what a clone of a URL
  yields, and the lock files that are held.  Each step that changes the repository
  writes it back, so that the world after a failed construction is the one the failure
  left behind.
\<close>

record world =
  fs :: "(string \<times> repo) list"
  clonable :: "(string \<times> repo) list"
  held_locks :: "string list"

definition save :: "string \<Rightarrow> repo \<Rightarrow> world \<Rightarrow> world" where
  "save path rp w = w\<lparr>fs := AList.update path rp (fs w)\<rparr>"

text \<open>\<^verbatim>\<open>git.Repo(path)\<close>, \<^verbatim>\<open>git.Repo.clone_from(url, path)\<close> and \<^verbatim>\<open>git.Repo.init(path)\<close>.\<close>

definition git_Repo :: "world \<Rightarrow> string \<Rightarrow> error + repo" where
  "git_Repo w path = (case map_of (fs w) path of None \<Rightarrow> Inl NoSuchPathError | Some rp \<Rightarrow> Inr rp)"

definition clone_from :: "world \<Rightarrow> string \<Rightarrow> string \<Rightarrow> (error + repo) \<times> world" where
  "clone_from w url path =
     (case map_of (clonable w) url of
        None \<Rightarrow> (Inl GitCommandError, w)
      | Some rp \<Rightarrow> (Inr rp, save path rp w))"

definition Repo_init :: repo where
  "Repo_init = \<lparr>refs = [], HEAD = ''master'', index = [], working_tree = [], bare = False,
                remotes = []\<rparr>"

text \<open>\<^verbatim>\<open>Client.clone\<close>.\<close>

definition clone :: "world \<Rightarrow> string \<Rightarrow> string \<Rightarrow> string \<Rightarrow> bool \<Rightarrow> (error + repo) \<times> world" where
  "clone w rem remote_url root no_head_check =
     (case clone_from w remote_url root of
        (Inl e, w1) \<Rightarrow> (Inl e, w1)
      | (Inr rp, w1) \<Rightarrow>
          if no_head_check then (Inr rp, w1)
          else
            (case create_head rp BINSYNC_ROOT_BRANCH (rem @ ''/'' @ BINSYNC_ROOT_BRANCH) of
               Inl e \<Rightarrow>
                 (Inl (if e = BadName then Exception' ''This is not a binsync repo'' else e), w1)
             | Inr rp1 \<Rightarrow> (Inr rp1, save root rp1 w1)))"

text \<open>\<^verbatim>\<open>Client._setup_repo\<close>: the failure, if any, and the repository as it is left.\<close>

definition setup_repo :: "int \<Rightarrow> string \<Rightarrow> repo \<Rightarrow> error option \<times> repo" where
  "setup_repo now bh rp =
     (case index_commit now ''Root commit''
             (add_data ''binary_hash'' bh (add_data ''.gitignore'' (''.git/*'' @ [newline]) rp)) of
        (c, rp1) \<Rightarrow>
          (case create_head rp1 BINSYNC_ROOT_BRANCH ''HEAD'' of
             Inl e \<Rightarrow> (Some e, rp1)
           | Inr rp2 \<Rightarrow> (None, rp2)))"

text \<open>
  \<^verbatim>\<open>Client._localize_remote_branches\<close>.  \<^verbatim>\<open>re.findall(f"({remote}/)(.*)", name)[0][1]\<close>
  is the rest of the name after the first occurrence of the remote's name and a slash;
  the remote's name is taken to be free of regular-expression operators.
\<close>

fun after_first :: "string \<Rightarrow> string \<Rightarrow> string option" where
  "after_first p [] = (if p = [] then Some [] else None)"
| "after_first p (c # cs) =
     (if startswith (c # cs) p then Some (drop (length p) (c # cs)) else after_first p cs)"

definition remote_local_name :: "string \<Rightarrow> string \<Rightarrow> string option" where
  "remote_local_name rem nm =
     map_option (takeWhile (\<lambda>c. c \<noteq> newline)) (after_first (rem @ ''/'') nm)"

fun localize_loop :: "string \<Rightarrow> string list \<Rightarrow> git_ref list \<Rightarrow> repo \<Rightarrow> repo" where
  "localize_loop rem local_branches [] rp = rp"
| "localize_loop rem local_branches (b # bs) rp =
     (if contains (name b) ''HEAD'' then localize_loop rem local_branches bs rp
      else
        (case remote_local_name rem (name b) of
           None \<Rightarrow> localize_loop rem local_branches bs rp
         | Some local_name \<Rightarrow>
             if local_name \<in> set local_branches then localize_loop rem local_branches bs rp
             else
               (case checkout_track rp b of
                  Inl e \<Rightarrow> localize_loop rem local_branches bs rp
                | Inr rp1 \<Rightarrow> localize_loop rem local_branches bs rp1)))"

definition localize_remote_branches :: "string \<Rightarrow> repo \<Rightarrow> repo" where
  "localize_remote_branches rem rp =
     (if ''origin'' \<in> set (remotes rp)
      then localize_loop rem (map name (branches rp))
             (filter (\<lambda>r. kind r = RemoteRef ''origin'') (refs rp)) rp
      else rp)"

text \<open>\<^verbatim>\<open>Client._get_stored_hash\<close>.\<close>

definition get_stored_hash :: "repo \<Rightarrow> error + string" where
  "get_stored_hash rp =
     (case filter (\<lambda>r. endswith (name r) BINSYNC_ROOT_BRANCH) (refs rp) of
        [] \<Rightarrow> Inl IndexError
      | branch # rest \<Rightarrow>
          (case map_of (tree (commit branch)) ''binary_hash'' of
             None \<Rightarrow> Inl (KeyError ''binary_hash'')
           | Some d \<Rightarrow> Inr (strip_newlines d)))"

text \<open>\<^verbatim>\<open>Client._get_or_init_user_branch\<close>: the failure, if any, and the repository as it
  is left.\<close>

definition create_and_checkout :: "repo \<Rightarrow> string \<Rightarrow> string \<Rightarrow> error option \<times> repo" where
  "create_and_checkout rp nm start =
     (case create_head rp nm start of
        Inl e \<Rightarrow> (Some e, rp)
      | Inr rp1 \<Rightarrow> (case checkout rp1 nm of Inl e \<Rightarrow> (Some e, rp1) | Inr rp2 \<Rightarrow> (None, rp2)))"

definition get_or_init_user_branch :: "string \<Rightarrow> repo \<Rightarrow> error option \<times> repo" where
  "get_or_init_user_branch mu rp =
     (case find (\<lambda>b. endswith (name b) (user_branch_name_of mu)) (branches rp) of
        None \<Rightarrow> create_and_checkout rp (user_branch_name_of mu) BINSYNC_ROOT_BRANCH
      | Some b \<Rightarrow>
          if is_remote b then create_and_checkout rp (user_branch_name_of mu) ''HEAD''
          else (case checkout rp (name b) of Inl e \<Rightarrow> (Some e, rp) | Inr rp1 \<Rightarrow> (None, rp1)))"

text \<open>The arguments of the constructor.  An absent \<^verbatim>\<open>remote_url\<close> is \<open>None\<close>; an empty
  one is as good as absent, as is an empty \<^verbatim>\<open>repo_root\<close>.\<close>

record client_args =
  arg_master_user :: string
  arg_repo_root :: string
  arg_binary_hash :: string
  arg_remote :: string
  arg_commit_interval :: int
  arg_init_repo :: bool
  arg_remote_url :: "string option"
  arg_ssh_agent_pid :: "int option"
  arg_ssh_auth_sock :: "string option"

definition has_root_branch :: "repo \<Rightarrow> bool" where
  "has_root_branch rp = (find (\<lambda>b. name b = BINSYNC_ROOT_BRANCH) (branches rp) \<noteq> None)"

text \<open>Lines 173 to 202 of \<^verbatim>\<open>Client._get_or_init_binsync_repo\<close>: the repository root in
  use and the repository, or the failure.  First the branch taken for a remote URL, then
  the branch taken without one.\<close>

definition acquire_remote ::
  "int \<Rightarrow> world \<Rightarrow> client_args \<Rightarrow> string \<Rightarrow> (error + string \<times> repo) \<times> world" where
  "acquire_remote now w a remote_url =
     (case (if arg_repo_root a = [] then derive_repo_root remote_url else Inr (arg_repo_root a)) of
        Inl e \<Rightarrow> (Inl e, w)
      | Inr root \<Rightarrow>
          (case clone w (arg_remote a) remote_url root (arg_init_repo a) of
             (Inl e, w1) \<Rightarrow> (Inl e, w1)
           | (Inr rp, w1) \<Rightarrow>
               if arg_init_repo a then
                 (if has_root_branch rp
                  then (Inl (Exception' ''Cannot init this remote repo since a BinSync root already exists''), w1)
                  else
                    (case setup_repo now (arg_binary_hash a) rp of
                       (Some e, rp1) \<Rightarrow> (Inl e, save root rp1 w1)
                     | (None, rp1) \<Rightarrow> (Inr (root, rp1), save root rp1 w1)))
               else (Inr (root, rp), w1)))"

definition acquire_local :: "int \<Rightarrow> world \<Rightarrow> client_args \<Rightarrow> (error + string \<times> repo) \<times> world" where
  "acquire_local now w a =
     (case git_Repo w (arg_repo_root a) of
        Inl e \<Rightarrow>
          if arg_init_repo a then
            (case setup_repo now (arg_binary_hash a) Repo_init of
               (Some e1, rp1) \<Rightarrow> (Inl e1, save (arg_repo_root a) rp1 w)
             | (None, rp1) \<Rightarrow> (Inr (arg_repo_root a, rp1), save (arg_repo_root a) rp1 w))
          else (Inl (Exception' ''Failed to connect or create a BinSync repo''), w)
      | Inr rp \<Rightarrow>
          (let rp1 = localize_remote_branches (arg_remote a) rp;
               w1 = save (arg_repo_root a) rp1 w
           in if arg_init_repo a
              then (Inl (Exception' ''Could not initialize repository - it already exists!''), w1)
              else if \<not> has_root_branch rp1
              then (Inl (Exception' ''This is not a BinSync repo''), w1)
              else (Inr (arg_repo_root a, rp1), w1)))"

definition acquire_repo :: "int \<Rightarrow> world \<Rightarrow> client_args \<Rightarrow> (error + string \<times> repo) \<times> world" where
  "acquire_repo now w a =
     (case arg_remote_url a of
        None \<Rightarrow> acquire_local now w a
      | Some remote_url \<Rightarrow>
          if remote_url = [] then acquire_local now w a else acquire_remote now w a remote_url)"

definition lock_path :: "string \<Rightarrow> string" where
  "lock_path root = root @ ''/.git/binsync.lock''"

text \<open>\<^verbatim>\<open>Client._get_or_init_binsync_repo\<close>: the root, the repository, the connection
  warnings and the lock taken.\<close>

definition get_or_init_binsync_repo ::
  "int \<Rightarrow> world \<Rightarrow> client_args
     \<Rightarrow> (error + string \<times> repo \<times> ConnectionWarnings list \<times> string) \<times> world" where
  "get_or_init_binsync_repo now w a =
     (case acquire_repo now w a of
        (Inl e, w1) \<Rightarrow> (Inl e, w1)
      | (Inr (root, rp), w1) \<Rightarrow>
          (case get_stored_hash rp of
             Inl e \<Rightarrow> (Inl e, w1)
           | Inr stored \<Rightarrow>
               if bare rp then (Inl AssertionError, w1)
               else if lock_path root \<in> set (held_locks w1)
               then (Inl (Exception' ''Can only have one binsync client touching a local repository at once.''), w1)
               else (Inr (root, rp, (if stored \<noteq> arg_binary_hash a then [HASH_MISMATCH] else []),
                          lock_path root),
                     w1\<lparr>held_locks := lock_path root # held_locks w1\<rparr>)))"

text \<open>\<^verbatim>\<open>Client.__init__\<close>.\<close>

definition Client_init :: "int \<Rightarrow> world \<Rightarrow> client_args \<Rightarrow> (error + client) \<times> world" where
  "Client_init now w a =
     (case check_username (arg_master_user a) of
        Inl e \<Rightarrow> (Inl e, w)
      | Inr ok \<Rightarrow>
          (case get_or_init_binsync_repo now w a of
             (Inl e, w1) \<Rightarrow> (Inl e, w1)
           | (Inr (root, rp, warnings, lock), w1) \<Rightarrow>
               (case get_or_init_user_branch (arg_master_user a) rp of
                  (Some e, rp1) \<Rightarrow> (Inl e, save root rp1 w1)
                | (None, rp1) \<Rightarrow>
                    (Inr \<lparr>master_user = arg_master_user a, repo_root = root,
                          binary_hash = arg_binary_hash a, remote = arg_remote a, repo = rp1,
                          repo_lock = Some lock, ssh_agent_pid = arg_ssh_agent_pid a,
                          ssh_auth_sock = arg_ssh_auth_sock a, connection_warnings = warnings,
                          cache = Cache, scheduler = Scheduler\<lparr>worker_started := True\<rparr>,
                          commit_interval = arg_commit_interval a, last_push_ts = None,
                          last_push_attempt_ts = None, last_pull_ts = None,
                          last_pull_attempt_ts = None, last_commit_ts = None,
                          active_remote = True\<rparr>,
                     save root rp1 w1))))"

section \<open>String tests and the list orders\<close>

lemma startswith_prefix: "startswith s p \<longleftrightarrow> prefix p s"
  by (induction s p rule: startswith.induct) auto

lemma endswith_suffix: "endswith s p \<longleftrightarrow> suffix p s"
  by (simp add: endswith_def startswith_prefix suffix_to_prefix)

lemma contains_sublist: "contains s p \<longleftrightarrow> sublist p s"
proof (induction s)
  case Nil
  then show ?case by simp
next
  case (Cons c cs)
  then show ?case
    by (cases p) (auto simp: startswith_prefix sublist_Cons_right)
qed

lemma str_split_not_empty: "str_split sep s \<noteq> []"
  by (induction s) (auto split: list.splits)

section \<open>Example values\<close>

definition local_alice :: git_ref where
  "local_alice = \<lparr>name = ''binsync/alice'', kind = Head, commit = Commit [] 2 ''local'' []\<rparr>"

definition origin_alice :: git_ref where
  "origin_alice =
     \<lparr>name = ''origin/binsync/alice'', kind = RemoteRef ''origin'',
      commit = Commit [] 1 ''remote'' []\<rparr>"

definition empty_world :: world where
  "empty_world = \<lparr>fs = [], clonable = [], held_locks = []\<rparr>"

definition args_for :: "string \<Rightarrow> client_args" where
  "args_for u =
     \<lparr>arg_master_user = u, arg_repo_root = ''/tmp/r1'', arg_binary_hash = ''aa'',
      arg_remote = ''origin'', arg_commit_interval = 10, arg_init_repo = False,
      arg_remote_url = None, arg_ssh_agent_pid = None, arg_ssh_auth_sock = None\<rparr>"

definition bob_ref :: git_ref where
  "bob_ref = \<lparr>name = ''binsync/bob'', kind = Head, commit = Commit [] 3 ''bob'' []\<rparr>"

definition example_repo :: repo where
  "example_repo =
     \<lparr>refs = [local_alice, bob_ref, origin_alice], HEAD = ''binsync/alice'', index = [],
      working_tree = [], bare = False, remotes = [''origin'']\<rparr>"

definition example_client :: client where
  "example_client =
     \<lparr>master_user = ''alice'', repo_root = ''/tmp/r1'', binary_hash = ''aa'', remote = ''origin'',
      repo = example_repo, repo_lock = Some ''/tmp/r1/.git/binsync.lock'',
      ssh_agent_pid = None, ssh_auth_sock = None, connection_warnings = [], cache = Cache,
      scheduler = Scheduler\<lparr>worker_started := True\<rparr>, commit_interval = 10,
      last_push_ts = None, last_push_attempt_ts = None, last_pull_ts = None,
      last_pull_attempt_ts = None, last_commit_ts = None, active_remote = True\<rparr>"

text \<open>A \<^verbatim>\<open>State.parse\<close> that finds no metadata, one that fails otherwise, and a constructor
  of empty States.\<close>

definition no_metadata :: "tree \<Rightarrow> int option \<Rightarrow> error + state" where
  "no_metadata t v = Inl MetadataNotFoundError"

definition broken_toml :: "tree \<Rightarrow> int option \<Rightarrow> error + state" where
  "broken_toml t v = Inl (KeyError ''user'')"

definition fresh_State :: "string \<Rightarrow> state" where
  "fresh_State u = \<lparr>user = u, dirty = True, files = []\<rparr>"

section \<open>Best-ref selection: which reference wins\<close>

text \<open>The group of a branch name: the references in the \<^verbatim>\<open>binsync/\<close> namespace whose last
  path segment is that name, in enumeration order.\<close>

definition ref_group :: "string \<Rightarrow> git_ref list \<Rightarrow> git_ref list" where
  "ref_group b rfs = filter (\<lambda>r. in_binsync_namespace r \<and> branch_name r = b) rfs"

definition of_remote :: "string \<Rightarrow> git_ref \<Rightarrow> bool" where
  "of_remote rem r = (kind r = RemoteRef rem)"

lemma not_of_remote_iff: "not_of_remote rem r \<longleftrightarrow> \<not> of_remote rem r"
  by (auto simp: not_of_remote_def of_remote_def split: ref_kind.splits)

lemma best_refs_loop_lookup:
  "map_of (best_refs_loop rem rfs cands) b =
     (if filter (of_remote rem) (ref_group b rfs) \<noteq> []
      then Some (last (filter (of_remote rem) (ref_group b rfs)))
      else if map_of cands b \<noteq> None then map_of cands b
      else if ref_group b rfs = [] then None
      else Some (hd (ref_group b rfs)))"
proof (induction rfs arbitrary: cands)
  case Nil
  then show ?case by (simp add: ref_group_def)
next
  case (Cons r rs)
  show ?case
    by (auto simp: Cons.IH ref_group_def not_of_remote_iff update_conv')
qed

text \<open>
  Claim C1, as the code has it.  References are grouped by their last path segment, and
  only references whose name contains \<^verbatim>\<open>binsync/\<close> take part.  Within a group the
  selection is a reference of the configured remote whenever the group has one (the last
  of them in enumeration order), also when the group has a local reference; a group
  without one yields its first reference in enumeration order.
\<close>

theorem get_best_refs_selection:
  "map_of (get_best_refs rem rfs) b =
     (if ref_group b rfs = [] then None
      else if filter (of_remote rem) (ref_group b rfs) = [] then Some (hd (ref_group b rfs))
      else Some (last (filter (of_remote rem) (ref_group b rfs))))"
  using best_refs_loop_lookup [of rem rfs "[]" b]
  by (auto simp: get_best_refs_def)

text \<open>
  Claim C1 as stated fails: with a local \<^verbatim>\<open>binsync/alice\<close> and the remote-tracking
  \<^verbatim>\<open>origin/binsync/alice\<close> of the configured remote \<^verbatim>\<open>origin\<close>, enumerated heads first as
  the library does, the remote reference is selected, not the local one.
\<close>

theorem best_refs_remote_over_local:
  "get_best_refs ''origin'' [local_alice, origin_alice] = [(''alice'', origin_alice)]
   \<and> \<not> is_remote local_alice \<and> is_remote origin_alice"
  by (simp add: get_best_refs_def local_alice_def origin_alice_def in_binsync_namespace_def
      branch_name_def not_of_remote_def is_remote_def BINSYNC_BRANCH_PREFIX_def)

section \<open>The authentication environment: both hints or nothing\<close>

text \<open>
  Claim C9.  With both the agent pid and the socket path supplied, \<^verbatim>\<open>ssh_agent_env\<close> is
  exactly the two-entry map of \<^verbatim>\<open>SSH_AGENT_PID\<close> to the pid rendered as a string and
  \<^verbatim>\<open>SSH_AUTH_SOCK\<close> to the socket path; with either missing it is the empty map.
\<close>

theorem ssh_agent_env_cases:
  "ssh_agent_env (Some pid) (Some sock) =
     [(''SSH_AGENT_PID'', str_int pid), (''SSH_AUTH_SOCK'', sock)]
   \<and> ssh_agent_env None s = [] \<and> ssh_agent_env p None = []"
  by (simp add: ssh_agent_env_def split: option.splits)

section \<open>The username check\<close>

text \<open>
  Claim C7.  A master user that ends with \<^verbatim>\<open>/\<close> or contains \<^verbatim>\<open>__root__\<close> makes the
  constructor fail with the bad-username error and leaves the world as it was: nothing
  was opened, cloned, written or locked.  Every other username passes the check.
\<close>

theorem bad_username_rejected:
  "(suffix ''/'' (arg_master_user a) \<or> sublist ''__root__'' (arg_master_user a)
      \<longrightarrow> Client_init now w a = (Inl (BadUsername (arg_master_user a)), w))
   \<and> (\<not> (suffix ''/'' (arg_master_user a) \<or> sublist ''__root__'' (arg_master_user a))
      \<longrightarrow> check_username (arg_master_user a) = Inr ())"
  by (simp add: Client_init_def check_username_def bad_username_def endswith_suffix
      contains_sublist)

theorem bad_username_rejected_witness:
  "(suffix ''/'' ''bob/''
      \<and> Client_init 0 empty_world (args_for ''bob/'') = (Inl (BadUsername ''bob/''), empty_world))
   \<and> (sublist ''__root__'' ''a__root__b''
      \<and> Client_init 0 empty_world (args_for ''a__root__b'')
          = (Inl (BadUsername ''a__root__b''), empty_world))
   \<and> (\<not> suffix ''/'' ''alice'' \<and> \<not> sublist ''__root__'' ''alice''
      \<and> check_username ''alice'' = Inr ())"
  using bad_username_rejected [of "args_for ''bob/''" 0 empty_world]
    bad_username_rejected [of "args_for ''a__root__b''" 0 empty_world]
    bad_username_rejected [of "args_for ''alice''" 0 empty_world]
  by (simp add: args_for_def endswith_suffix [symmetric] contains_sublist [symmetric]
      endswith_def)

section \<open>The repository root derived from the URL\<close>

text \<open>
  Claim C8, evaluated.  For an URL with more than one slash the derived root is not the
  final path segment: the match starts at the first slash of the URL and runs to the last
  \<^verbatim>\<open>.git\<close>.  For \<^verbatim>\<open>https://github.com/user/repo.git\<close> the root is
  \<^verbatim>\<open>/github.com/user/repo\<close>, where the final segment without \<^verbatim>\<open>.git\<close> is \<^verbatim>\<open>repo\<close>; an URL
  whose only slash precedes the final segment gives that segment.
\<close>

theorem repo_root_of_https_url:
  "derive_repo_root ''https://github.com/user/repo.git'' = Inr ''/github.com/user/repo''
   \<and> last (str_split CHR ''/'' ''https://github.com/user/repo.git'') = ''repo.git''
   \<and> derive_repo_root ''git@github.com:user/repo.git'' = Inr ''repo''"
  by (simp add: derive_repo_root_def newline_def)

section \<open>Reading a state: which failures come back to the caller\<close>

text \<open>The user a call of \<^verbatim>\<open>get_state\<close> is about: the one given, else the master user.\<close>

definition requested_user :: "client \<Rightarrow> string option \<Rightarrow> string" where
  "requested_user self usr = (case usr of None \<Rightarrow> master_user self | Some u \<Rightarrow> u)"

lemma get_tree_no_ref:
  "\<forall>r\<in>set (refs rp). \<not> suffix (''binsync/'' @ u) (name r) \<Longrightarrow> get_tree u rp = Inl (ValueError u)"
proof -
  assume a: "\<forall>r\<in>set (refs rp). \<not> suffix (''binsync/'' @ u) (name r)"
  then have "filter (\<lambda>r. endswith (name r) (BINSYNC_BRANCH_PREFIX @ ''/'' @ u)) (refs rp) = []"
    by (simp add: filter_empty_conv endswith_suffix BINSYNC_BRANCH_PREFIX_def)
  then show ?thesis by (simp add: get_tree_def)
qed

text \<open>
  Claim C10.  When no reference name ends with \<^verbatim>\<open>binsync/<u>\<close>, \<^verbatim>\<open>get_state\<close> for \<open>u\<close>
  raises the no-such-user \<^verbatim>\<open>ValueError\<close> of the tree lookup: it returns neither
  \<^verbatim>\<open>None\<close> nor a synthesized State, whatever \<^verbatim>\<open>State.parse\<close> would do.  Only the
  metadata-not-found failure is caught: any other failure of \<^verbatim>\<open>State.parse\<close> is raised
  to the caller as it is.
\<close>

theorem get_state_no_such_user:
  "((\<forall>r\<in>set (refs (repo self)). \<not> suffix (''binsync/'' @ requested_user self usr) (name r))
      \<longrightarrow> get_state parse new_State self usr vers = Inl (ValueError (requested_user self usr)))
   \<and> (get_tree (requested_user self usr) (repo self) = Inr t \<and> parse t vers = Inl e
        \<and> e \<noteq> MetadataNotFoundError
      \<longrightarrow> get_state parse new_State self usr vers = Inl e)"
proof (intro conjI impI)
  assume "\<forall>r\<in>set (refs (repo self)). \<not> suffix (''binsync/'' @ requested_user self usr) (name r)"
  then have "get_tree (requested_user self usr) (repo self) = Inl (ValueError (requested_user self usr))"
    by (rule get_tree_no_ref)
  then show "get_state parse new_State self usr vers = Inl (ValueError (requested_user self usr))"
    by (simp add: get_state_def requested_user_def)
next
  assume "get_tree (requested_user self usr) (repo self) = Inr t \<and> parse t vers = Inl e
        \<and> e \<noteq> MetadataNotFoundError"
  then show "get_state parse new_State self usr vers = Inl e"
    by (simp add: get_state_def requested_user_def)
qed

theorem get_state_no_such_user_witness:
  "(\<forall>r\<in>set (refs (repo example_client)).
       \<not> suffix (''binsync/'' @ requested_user example_client (Some ''carol'')) (name r))
   \<and> get_state no_metadata fresh_State example_client (Some ''carol'') None
        = Inl (ValueError ''carol'')
   \<and> get_tree (requested_user example_client (Some ''bob'')) (repo example_client) = Inr []
   \<and> broken_toml [] None = Inl (KeyError ''user'')
   \<and> KeyError ''user'' \<noteq> MetadataNotFoundError
   \<and> get_state broken_toml fresh_State example_client (Some ''bob'') None
        = Inl (KeyError ''user'')"
  using get_state_no_such_user [of example_client "Some ''carol''" no_metadata fresh_State None
      "[]" "KeyError ''user''"]
    get_state_no_such_user [of example_client "Some ''bob''" broken_toml fresh_State None
      "[]" "KeyError ''user''"]
  by (simp add: requested_user_def example_client_def example_repo_def local_alice_def
      bob_ref_def origin_alice_def endswith_suffix [symmetric] endswith_def get_tree_def
      BINSYNC_BRANCH_PREFIX_def broken_toml_def)

text \<open>
  Claim C2, as the code has it.  When the branch of the requested user exists and
  \<^verbatim>\<open>State.parse\<close> fails with \<^verbatim>\<open>MetadataNotFoundError\<close>, the failure is caught for every
  user: for the master user (given, or by default) \<^verbatim>\<open>get_state\<close> returns a fresh State
  made for \<^verbatim>\<open>master_user\<close>; for any other user it returns \<^verbatim>\<open>None\<close>.
\<close>

theorem get_state_metadata_not_found:
  "get_tree (requested_user self usr) (repo self) = Inr t
     \<and> parse t vers = Inl MetadataNotFoundError
   \<longrightarrow> get_state parse new_State self usr vers =
         (if requested_user self usr = master_user self
          then Inr (Some (new_State (master_user self)))
          else Inr None)"
  by (simp add: get_state_def requested_user_def)

theorem get_state_metadata_not_found_witness:
  "(get_tree (requested_user example_client None) (repo example_client) = Inr []
      \<and> no_metadata [] None = Inl MetadataNotFoundError
      \<and> get_state no_metadata fresh_State example_client None None
           = Inr (Some (fresh_State ''alice'')))
   \<and> (get_tree (requested_user example_client (Some ''bob'')) (repo example_client) = Inr []
      \<and> get_state no_metadata fresh_State example_client (Some ''bob'') None = Inr None)"
  using get_state_metadata_not_found [of example_client None "[]" no_metadata None fresh_State]
    get_state_metadata_not_found [of example_client "Some ''bob''" "[]" no_metadata None fresh_State]
  by (simp add: requested_user_def example_client_def example_repo_def local_alice_def
      bob_ref_def origin_alice_def endswith_def get_tree_def BINSYNC_BRANCH_PREFIX_def
      no_metadata_def)

text \<open>
  Claim C2 as stated fails for the other users: with master user \<^verbatim>\<open>alice\<close>, an existing
  branch \<^verbatim>\<open>binsync/bob\<close> and a \<^verbatim>\<open>State.parse\<close> that raises \<^verbatim>\<open>MetadataNotFoundError\<close>,
  \<^verbatim>\<open>get_state(user="bob")\<close> returns \<^verbatim>\<open>None\<close>; the failure does not reach the caller.
\<close>

theorem get_state_swallows_for_other_user:
  "get_tree ''bob'' (repo example_client) = Inr []
   \<and> no_metadata [] None = Inl MetadataNotFoundError
   \<and> ''bob'' \<noteq> master_user example_client
   \<and> get_state no_metadata fresh_State example_client (Some ''bob'') None = Inr None
   \<and> get_state no_metadata fresh_State example_client (Some ''bob'') None
        \<noteq> Inl MetadataNotFoundError"
  by (simp add: get_state_def get_tree_def example_client_def example_repo_def local_alice_def
      bob_ref_def origin_alice_def endswith_def no_metadata_def BINSYNC_BRANCH_PREFIX_def)

end
